theory Spec2Isabelle
  imports Main
begin

section \<open>Values of the program\<close>

text \<open>
  A Spark DataFrame is used by \<^verbatim>\<open>valido_decorators.py\<close> through two attributes only:
  \<^verbatim>\<open>df.columns\<close>, the list of column names, and \<^verbatim>\<open>df.dtypes\<close>, the list of
  (name, dtype) pairs. The two are kept as independent fields, so nothing is assumed about
  how the engine relates them.
\<close>

record dataframe =
  columns :: "string list"
  dtypes :: "(string \<times> string) list"

text \<open>The Python values that reach the wrappers as arguments and results.\<close>

datatype pyval = PNone | PInt int | PStr string | PDataFrame dataframe

text \<open>
  \<^verbatim>\<open>ColumnsDef = Union[List, Dict]\<close>, together with the two other containers of names a
  caller can hand over. \<open>ColsDict\<close> holds the items of the dict in insertion order (the keys
  of a Python dict are distinct); \<open>ColsSet xs\<close> is the Python set built from \<open>xs\<close>.
\<close>

datatype colspec =
    ColsList "string list"
  | ColsDict "(string \<times> string) list"
  | ColsTuple "string list"
  | ColsSet "string list"

text \<open>
  The exceptions the module can raise. Every \<^verbatim>\<open>assert\<close> raises \<open>AssertionError\<close> with its
  message. The message of the strict check (line 26) joins the elements of a Python set,
  whose iteration order the language leaves open: \<open>UnexpectedColumns S\<close> is that
  \<open>AssertionError\<close>, with text \<^verbatim>\<open>DataFrame contained unexpected column(s): \<close> followed by
  the names of \<open>S\<close> joined by \<^verbatim>\<open>, \<close> in some order.
\<close>

datatype error =
    AssertionError string
  | UnexpectedColumns "string set"
  | KeyError string
  | TypeError string

text \<open>
  The world a wrapped function runs in: the calls of \<^verbatim>\<open>print\<close> made so far (each with
  its argument values) and whatever else the function can change.
\<close>

record 's world =
  stdout :: "pyval list list"
  other :: 's

type_synonym kwargs = "string \<rightharpoonup> pyval"

type_synonym 's pyfun = "pyval list \<Rightarrow> kwargs \<Rightarrow> 's world \<Rightarrow> (error + pyval) \<times> 's world"

definition py_print :: "pyval list \<Rightarrow> 's world \<Rightarrow> 's world" where
  "py_print vs w = w\<lparr>stdout := stdout w @ [vs]\<rparr>"

section \<open>Text of values\<close>

definition squote :: char where
  "squote = CHR 0x27"

definition dquote :: char where
  "dquote = CHR 0x22"

definition backslash :: char where
  "backslash = CHR 0x5C"

definition hex_digit :: "nat \<Rightarrow> char" where
  "hex_digit n = (''0123456789abcdef'') ! (n mod 16)"

text \<open>
  \<^verbatim>\<open>repr\<close> of a \<^verbatim>\<open>str\<close>: double quotes when the text has a single quote and no double
  quote, single quotes otherwise; the backslash, the chosen quote and the control characters
  are escaped. A \<open>char\<close> is a byte; bytes from 0x80 on stand for printable characters, which
  Python writes as they are.
\<close>

definition repr_char :: "char \<Rightarrow> char \<Rightarrow> string" where
  "repr_char q c =
     (if c = backslash then [backslash, backslash]
      else if c = q then [backslash, q]
      else if c = CHR 0x0A then [backslash, CHR ''n'']
      else if c = CHR 0x0D then [backslash, CHR ''r'']
      else if c = CHR 0x09 then [backslash, CHR ''t'']
      else if (of_char c :: nat) < 32 \<or> (of_char c :: nat) = 127
        then [backslash, CHR ''x'', hex_digit (of_char c div 16), hex_digit (of_char c)]
      else [c])"

definition py_repr_str :: "string \<Rightarrow> string" where
  "py_repr_str s =
     (let q = (if squote \<in> set s \<and> dquote \<notin> set s then dquote else squote)
      in [q] @ concat (map (repr_char q) s) @ [q])"

fun join :: "string \<Rightarrow> string list \<Rightarrow> string" where
  "join sep [] = []"
| "join sep [x] = x"
| "join sep (x # y # ys) = x @ sep @ join sep (y # ys)"

text \<open>\<^verbatim>\<open>str\<close> of a list of strings, as an f-string renders it.\<close>

definition py_str_list :: "string list \<Rightarrow> string" where
  "py_str_list xs = ''['' @ join '', '' (map py_repr_str xs) @ '']''"

text \<open>\<^verbatim>\<open>type(v).__name__\<close> and \<^verbatim>\<open>str(type(v))\<close>.\<close>

fun type_name :: "pyval \<Rightarrow> string" where
  "type_name PNone = ''NoneType''"
| "type_name (PInt i) = ''int''"
| "type_name (PStr s) = ''str''"
| "type_name (PDataFrame d) = ''DataFrame''"

fun type_str :: "pyval \<Rightarrow> string" where
  "type_str (PDataFrame d) = ''<class '' @ [squote] @ ''pyspark.sql.dataframe.DataFrame'' @ [squote] @ ''>''"
| "type_str v = ''<class '' @ [squote] @ type_name v @ [squote] @ ''>''"

section \<open>The column contract checker\<close>

text \<open>\<^verbatim>\<open>_describe_df\<close> (lines 94-99).\<close>

definition describe_df :: "dataframe \<Rightarrow> bool \<Rightarrow> string" where
  "describe_df df include_dtypes =
     (let result = ''columns: '' @ py_str_list (columns df)
      in if include_dtypes
         then result @ '' with dtypes '' @ py_str_list (map snd (dtypes df))
         else result)"

text \<open>The messages of the two per-item assertions (lines 15, 19 and 22).\<close>

definition missing_msg :: "string \<Rightarrow> dataframe \<Rightarrow> string" where
  "missing_msg column df =
     ''Column '' @ column @ '' missing from DataFrame. Got '' @ describe_df df False"

definition dtype_msg :: "string \<Rightarrow> string \<Rightarrow> string \<Rightarrow> string" where
  "dtype_msg column actual dtype =
     ''Column '' @ column @ '' has wrong dtype. Was '' @ actual @ '', expected '' @ dtype"

text \<open>\<^verbatim>\<open>dict(pairs)\<close>: of two pairs with the same key, the later one stays.\<close>

definition py_dict :: "(string \<times> string) list \<Rightarrow> (string \<rightharpoonup> string)" where
  "py_dict ps = map_of (rev ps)"

text \<open>The loop of lines 14-15: the first absent name raises.\<close>

fun check_list :: "dataframe \<Rightarrow> string list \<Rightarrow> error + unit" where
  "check_list df [] = Inr ()"
| "check_list df (column # rest) =
     (if column \<in> set (columns df) then check_list df rest
      else Inl (AssertionError (missing_msg column df)))"

text \<open>
  The loop of lines 18-22. \<^verbatim>\<open>col_dtype_dict[column]\<close> raises \<open>KeyError\<close> for a column
  that \<^verbatim>\<open>df.dtypes\<close> does not list.
\<close>

fun check_dict :: "dataframe \<Rightarrow> (string \<rightharpoonup> string) \<Rightarrow> (string \<times> string) list \<Rightarrow> error + unit" where
  "check_dict df col_dtype_dict [] = Inr ()"
| "check_dict df col_dtype_dict ((column, dtype) # rest) =
     (if column \<in> set (columns df)
      then (case col_dtype_dict column of
              None \<Rightarrow> Inl (KeyError column)
            | Some actual \<Rightarrow>
                if actual = dtype then check_dict df col_dtype_dict rest
                else Inl (AssertionError (dtype_msg column actual dtype)))
      else Inl (AssertionError (missing_msg column df)))"

text \<open>\<^verbatim>\<open>len(columns)\<close> and \<^verbatim>\<open>set(columns)\<close>.\<close>

fun py_len :: "colspec \<Rightarrow> nat" where
  "py_len (ColsList xs) = length xs"
| "py_len (ColsDict kvs) = length kvs"
| "py_len (ColsTuple xs) = length xs"
| "py_len (ColsSet xs) = length (remdups xs)"

fun py_set :: "colspec \<Rightarrow> string set" where
  "py_set (ColsList xs) = set xs"
| "py_set (ColsDict kvs) = set (map fst kvs)"
| "py_set (ColsTuple xs) = set xs"
| "py_set (ColsSet xs) = set xs"

text \<open>The three \<^verbatim>\<open>if\<close> blocks of \<^verbatim>\<open>_check_columns\<close> (lines 13-15, 16-22, 23-26).\<close>

definition check_names :: "dataframe \<Rightarrow> colspec \<Rightarrow> error + unit" where
  "check_names df cols = (case cols of ColsList xs \<Rightarrow> check_list df xs | _ \<Rightarrow> Inr ())"

definition check_dtypes :: "dataframe \<Rightarrow> colspec \<Rightarrow> error + unit" where
  "check_dtypes df cols =
     (case cols of ColsDict kvs \<Rightarrow> check_dict df (py_dict (dtypes df)) kvs | _ \<Rightarrow> Inr ())"

definition check_strict :: "dataframe \<Rightarrow> colspec \<Rightarrow> bool \<Rightarrow> error + unit" where
  "check_strict df cols strict =
     (if strict
      then (if length (columns df) = py_len cols then Inr ()
            else Inl (UnexpectedColumns (set (columns df) - py_set cols)))
      else Inr ())"

text \<open>\<^verbatim>\<open>_check_columns\<close> (lines 12-26).\<close>

definition check_columns :: "dataframe \<Rightarrow> colspec \<Rightarrow> bool \<Rightarrow> error + unit" where
  "check_columns df cols strict =
     (case check_names df cols of
        Inl e \<Rightarrow> Inl e
      | Inr u \<Rightarrow>
          (case check_dtypes df cols of
             Inl e \<Rightarrow> Inl e
           | Inr u \<Rightarrow> check_strict df cols strict))"

section \<open>The parameter resolver\<close>

text \<open>\<^verbatim>\<open>not name\<close>: true for \<^verbatim>\<open>None\<close> and for the empty string.\<close>

fun not_name :: "string option \<Rightarrow> bool" where
  "not_name None = True"
| "not_name (Some n) = (n = [])"

text \<open>
  \<^verbatim>\<open>_get_parameter\<close> (lines 56-61), on its bound parameters: \<open>name\<close>, the tuple \<open>args\<close> and
  the dict \<open>kwargs\<close>.
\<close>

definition get_parameter :: "string option \<Rightarrow> pyval list \<Rightarrow> kwargs \<Rightarrow> error + pyval" where
  "get_parameter name args kwargs =
     (if not_name name
      then (case args of [] \<Rightarrow> Inr PNone | a # rest \<Rightarrow> Inr a)
      else (case name of
              None \<Rightarrow> Inr PNone \<comment> \<open>not reached: \<open>not_name None\<close> holds\<close>
            | Some n \<Rightarrow> (case kwargs n of None \<Rightarrow> Inl (KeyError n) | Some v \<Rightarrow> Inr v)))"

text \<open>
  The call \<^verbatim>\<open>_get_parameter(name, *args, **kwargs)\<close> of lines 81 and 128. The first
  parameter of \<^verbatim>\<open>_get_parameter\<close> is called \<^verbatim>\<open>name\<close>, so a keyword argument \<^verbatim>\<open>name\<close>
  of the wrapped call binds it a second time and Python raises \<open>TypeError\<close> before the
  body runs.
\<close>

definition multiple_values_msg :: string where
  "multiple_values_msg =
     ''_get_parameter() got multiple values for argument '' @ [squote] @ ''name'' @ [squote]"

definition call_get_parameter :: "string option \<Rightarrow> pyval list \<Rightarrow> kwargs \<Rightarrow> error + pyval" where
  "call_get_parameter name args kwargs =
     (case kwargs ''name'' of
        Some v \<Rightarrow> Inl (TypeError multiple_values_msg)
      | None \<Rightarrow> get_parameter name args kwargs)"

section \<open>The wrappers\<close>

text \<open>\<^verbatim>\<open>if columns:\<close> is false for \<^verbatim>\<open>None\<close> and for an empty container.\<close>

fun truthy :: "colspec option \<Rightarrow> bool" where
  "truthy None = False"
| "truthy (Some cols) = (py_len cols \<noteq> 0)"

text \<open>Lines 47-48 and 85-86: the check runs for a truthy specification only.\<close>

definition check_if_columns :: "dataframe \<Rightarrow> colspec option \<Rightarrow> bool \<Rightarrow> error + unit" where
  "check_if_columns df columns_opt strict =
     (case columns_opt of
        None \<Rightarrow> Inr ()
      | Some cols \<Rightarrow> if truthy (Some cols) then check_columns df cols strict else Inr ())"

definition wrong_parameter_msg :: "pyval \<Rightarrow> string" where
  "wrong_parameter_msg v =
     ''Wrong parameter type. Expected Spark DataFrame, got '' @ type_name v @ '' instead.''"

definition wrong_return_msg :: "pyval \<Rightarrow> string" where
  "wrong_return_msg v = ''Wrong return type. Expected spark dataframe, got '' @ type_str v"

text \<open>The wrapper that \<^verbatim>\<open>df_in(name, columns, strict)\<close> puts around \<open>func\<close> (lines 80-87).\<close>

definition df_in ::
  "string option \<Rightarrow> colspec option \<Rightarrow> bool \<Rightarrow> 's pyfun \<Rightarrow> 's pyfun" where
  "df_in name columns_opt strict func args kwargs w =
     (case call_get_parameter name args kwargs of
        Inl e \<Rightarrow> (Inl e, w)
      | Inr v \<Rightarrow>
          (case v of
             PDataFrame df \<Rightarrow>
               (case check_if_columns df columns_opt strict of
                  Inl e \<Rightarrow> (Inl e, w)
                | Inr u \<Rightarrow> func args kwargs w)
           | _ \<Rightarrow> (Inl (AssertionError (wrong_parameter_msg v)), w)))"

text \<open>The wrapper that \<^verbatim>\<open>df_out(columns, strict)\<close> puts around \<open>func\<close> (lines 44-49).\<close>

definition df_out :: "colspec option \<Rightarrow> bool \<Rightarrow> 's pyfun \<Rightarrow> 's pyfun" where
  "df_out columns_opt strict func args kwargs w =
     (case func args kwargs w of
        (Inl e, w') \<Rightarrow> (Inl e, w')
      | (Inr result, w') \<Rightarrow>
          (case result of
             PDataFrame df \<Rightarrow>
               (case check_if_columns df columns_opt strict of
                  Inl e \<Rightarrow> (Inl e, w')
                | Inr u \<Rightarrow> (Inr result, w'))
           | _ \<Rightarrow> (Inl (AssertionError (wrong_return_msg result)), w')))"

text \<open>\<^verbatim>\<open>_log_input\<close> (lines 102-105) and \<^verbatim>\<open>_log_output\<close> (lines 108-110).\<close>

definition log_input_msg :: "string \<Rightarrow> dataframe \<Rightarrow> bool \<Rightarrow> string" where
  "log_input_msg func_name df include_dtypes =
     ''Function '' @ func_name @ '' parameters contained a DataFrame: ''
       @ describe_df df include_dtypes"

definition log_output_msg :: "string \<Rightarrow> dataframe \<Rightarrow> bool \<Rightarrow> string" where
  "log_output_msg func_name df include_dtypes =
     ''Function '' @ func_name @ '' returned a DataFrame: '' @ describe_df df include_dtypes"

definition log_input :: "string \<Rightarrow> pyval \<Rightarrow> bool \<Rightarrow> 's world \<Rightarrow> 's world" where
  "log_input func_name v include_dtypes w =
     (let w1 = py_print [PStr (''log_input'' @ [CHR 0x0A]), v] w
      in case v of
           PDataFrame df \<Rightarrow> py_print [PStr (log_input_msg func_name df include_dtypes)] w1
         | _ \<Rightarrow> w1)"

definition log_output :: "string \<Rightarrow> pyval \<Rightarrow> bool \<Rightarrow> 's world \<Rightarrow> 's world" where
  "log_output func_name v include_dtypes w =
     (case v of
        PDataFrame df \<Rightarrow> py_print [PStr (log_output_msg func_name df include_dtypes)] w
      | _ \<Rightarrow> w)"

text \<open>
  The wrapper that \<^verbatim>\<open>df_log(name, include_dtypes)\<close> puts around \<open>func\<close> (lines 127-130);
  \<open>func_name\<close> is \<^verbatim>\<open>func.__name__\<close>. The body ends after \<^verbatim>\<open>_log_output\<close>, with no
  \<^verbatim>\<open>return\<close>: the call yields \<^verbatim>\<open>None\<close>.
\<close>

definition df_log :: "string option \<Rightarrow> bool \<Rightarrow> string \<Rightarrow> 's pyfun \<Rightarrow> 's pyfun" where
  "df_log name include_dtypes func_name func args kwargs w =
     (case call_get_parameter name args kwargs of
        Inl e \<Rightarrow> (Inl e, w)
      | Inr v \<Rightarrow>
          (case func args kwargs (log_input func_name v include_dtypes w) of
             (Inl e, w') \<Rightarrow> (Inl e, w')
           | (Inr result, w') \<Rightarrow> (Inr PNone, log_output func_name result include_dtypes w')))"

section \<open>Values of the test suite\<close>

text \<open>
  The fixture \<^verbatim>\<open>basic_df\<close> of \<^verbatim>\<open>tests/test_valido_decorators.py\<close> (schema
  \<^verbatim>\<open>Brand string, Price int\<close>), a world with a call counter and no output yet, and a test
  function that counts its calls and returns a fixed value whatever it is given, as
  \<^verbatim>\<open>test_fn\<close> of \<^verbatim>\<open>test_log_df\<close> does.
\<close>

definition basic_df :: dataframe where
  "basic_df =
     \<lparr>columns = [''Brand'', ''Price''],
      dtypes = [(''Brand'', ''string''), (''Price'', ''int'')]\<rparr>"

definition w0 :: "nat world" where
  "w0 = \<lparr>stdout = [], other = 0\<rparr>"

definition returning :: "pyval \<Rightarrow> nat pyfun" where
  "returning v args kwargs w = (Inr v, w\<lparr>other := Suc (other w)\<rparr>)"

section \<open>The parameter resolver: properties\<close>

lemma get_parameter_body:
  "get_parameter None [] kwargs = Inr PNone"
  "get_parameter None (a # rest) kwargs = Inr a"
  "get_parameter (Some []) args kwargs = get_parameter None args kwargs"
  "n \<noteq> [] \<Longrightarrow> kwargs n = Some v \<Longrightarrow> get_parameter (Some n) args kwargs = Inr v"
  "n \<noteq> [] \<Longrightarrow> kwargs n = None \<Longrightarrow> get_parameter (Some n) args kwargs = Inl (KeyError n)"
  by (simp_all add: get_parameter_def)

lemma call_get_parameter_bound:
  "kwargs ''name'' = None \<Longrightarrow>
   call_get_parameter name args kwargs = get_parameter name args kwargs"
  by (simp add: call_get_parameter_def)

text \<open>
  C7, as the code has it. On every call of the resolver that has no keyword argument
  called \<^verbatim>\<open>name\<close>: with no name (\<^verbatim>\<open>None\<close>, or the empty string, which the test
  \<^verbatim>\<open>not name\<close> takes for no name) it returns the first positional argument when there is
  one and \<^verbatim>\<open>None\<close> when there is none; with a non-empty name it returns
  \<^verbatim>\<open>kwargs[name]\<close>, and when that keyword is absent the \<open>KeyError\<close> of the lookup is the
  outcome of the call: nothing catches it.
\<close>

theorem call_get_parameter_resolves:
  "(kwargs ''name'' = None \<longrightarrow> call_get_parameter None [] kwargs = Inr PNone)
   \<and> (kwargs ''name'' = None \<longrightarrow> call_get_parameter None (a # rest) kwargs = Inr a)
   \<and> (kwargs ''name'' = None \<longrightarrow>
        call_get_parameter (Some []) args kwargs = call_get_parameter None args kwargs)
   \<and> (kwargs ''name'' = None \<longrightarrow> n \<noteq> [] \<longrightarrow> kwargs n = Some v \<longrightarrow>
        call_get_parameter (Some n) args kwargs = Inr v)
   \<and> (kwargs ''name'' = None \<longrightarrow> n \<noteq> [] \<longrightarrow> kwargs n = None \<longrightarrow>
        call_get_parameter (Some n) args kwargs = Inl (KeyError n))"
  by (simp add: call_get_parameter_bound get_parameter_body)

theorem call_get_parameter_resolves_witness:
  "call_get_parameter None [] [''df'' \<mapsto> PInt 7] = Inr PNone
   \<and> call_get_parameter None [PInt 1, PInt 2] [''df'' \<mapsto> PInt 7] = Inr (PInt 1)
   \<and> call_get_parameter (Some []) [PInt 1] [''df'' \<mapsto> PInt 7] = Inr (PInt 1)
   \<and> call_get_parameter (Some ''df'') [PInt 1] [''df'' \<mapsto> PInt 7] = Inr (PInt 7)
   \<and> call_get_parameter (Some ''other'') [PInt 1] [''df'' \<mapsto> PInt 7]
       = Inl (KeyError ''other'')"
proof -
  have k: "[''df'' \<mapsto> PInt 7] ''name'' = None" "[''df'' \<mapsto> PInt 7] ''other'' = None"
    "[''df'' \<mapsto> PInt 7] ''df'' = Some (PInt 7)" "''df'' \<noteq> []" "''other'' \<noteq> []"
    by simp_all
  note t = call_get_parameter_resolves [where kwargs = "[''df'' \<mapsto> PInt 7]"
      and a = "PInt 1" and rest = "[PInt 2]" and args = "[PInt 1]" and n = "''df''"
      and v = "PInt 7"]
  note u = call_get_parameter_resolves [where kwargs = "[''df'' \<mapsto> PInt 7]"
      and a = "PInt 1" and rest = "[]" and args = "[PInt 1]" and n = "''other''"]
  from t k have a: "call_get_parameter None [] [''df'' \<mapsto> PInt 7] = Inr PNone"
    and b: "call_get_parameter None [PInt 1, PInt 2] [''df'' \<mapsto> PInt 7] = Inr (PInt 1)"
    and d: "call_get_parameter (Some ''df'') [PInt 1] [''df'' \<mapsto> PInt 7] = Inr (PInt 7)"
    by blast+
  from u k have c: "call_get_parameter (Some []) [PInt 1] [''df'' \<mapsto> PInt 7] = Inr (PInt 1)"
    and e: "call_get_parameter (Some ''other'') [PInt 1] [''df'' \<mapsto> PInt 7]
       = Inl (KeyError ''other'')"
    by simp_all
  from a b c d e show ?thesis by blast
qed

text \<open>
  The claim as first stated fails on two calls. A keyword argument called \<^verbatim>\<open>name\<close>
  binds the first parameter of \<^verbatim>\<open>_get_parameter\<close> a second time: the call raises
  \<open>TypeError\<close> and does not return the first positional argument. And the empty string,
  given as the name, is no name for \<^verbatim>\<open>not name\<close>: the call returns the first positional
  argument and not \<^verbatim>\<open>kwargs[""]\<close>.
\<close>

theorem call_get_parameter_resolves_counterexample:
  "call_get_parameter None [PInt 1] [''name'' \<mapsto> PInt 7] = Inl (TypeError multiple_values_msg)
   \<and> call_get_parameter (Some []) [PInt 1] [[] \<mapsto> PInt 7] = Inr (PInt 1)"
  by (simp add: call_get_parameter_def get_parameter_def)

section \<open>The loops of the checker\<close>

lemma check_list_append:
  "check_list df (pre @ post) =
     (case check_list df pre of Inl e \<Rightarrow> Inl e | Inr u \<Rightarrow> check_list df post)"
  by (induction pre) auto

lemma check_dict_append:
  "check_dict df d (pre @ post) =
     (case check_dict df d pre of Inl e \<Rightarrow> Inl e | Inr u \<Rightarrow> check_dict df d post)"
  by (induction pre) (auto split: option.splits)

lemma check_list_ok_iff:
  "check_list df xs = Inr () \<longleftrightarrow> set xs \<subseteq> set (columns df)"
  by (induction xs) auto

lemma check_dict_ok_iff:
  "check_dict df d kvs = Inr ()
     \<longleftrightarrow> (\<forall>(c, t) \<in> set kvs. c \<in> set (columns df) \<and> d c = Some t)"
proof (induction kvs)
  case Nil
  show ?case by simp
next
  case (Cons kv kvs)
  obtain c t where kv: "kv = (c, t)" by (cases kv)
  show ?case
  proof (cases "c \<in> set (columns df) \<and> d c = Some t")
    case True
    with Cons kv show ?thesis by simp
  next
    case False
    then have "check_dict df d (kv # kvs) \<noteq> Inr ()"
      using kv by (cases "d c") auto
    with False kv show ?thesis by auto
  qed
qed

lemma check_list_first_fail:
  assumes "set pre \<subseteq> set (columns df)" and "c \<notin> set (columns df)"
  shows "check_list df (pre @ c # post) = Inl (AssertionError (missing_msg c df))"
proof -
  from assms(1) have "check_list df pre = Inr ()"
    by (simp add: check_list_ok_iff)
  with assms(2) show ?thesis
    by (simp add: check_list_append)
qed

lemma check_dict_first_missing:
  assumes "check_dict df d pre = Inr ()" and "c \<notin> set (columns df)"
  shows "check_dict df d (pre @ (c, t) # post) = Inl (AssertionError (missing_msg c df))"
  using assms by (simp add: check_dict_append)

lemma check_dict_first_mismatch:
  assumes "check_dict df d pre = Inr ()" and "c \<in> set (columns df)"
    and "d c = Some a" and "a \<noteq> t"
  shows "check_dict df d (pre @ (c, t) # post) = Inl (AssertionError (dtype_msg c a t))"
  using assms by (simp add: check_dict_append)

lemma check_columns_list:
  "check_columns df (ColsList xs) strict =
     (case check_list df xs of
        Inl e \<Rightarrow> Inl e
      | Inr u \<Rightarrow> check_strict df (ColsList xs) strict)"
  by (simp add: check_columns_def check_names_def check_dtypes_def split: sum.splits)

lemma check_columns_dict:
  "check_columns df (ColsDict kvs) strict =
     (case check_dict df (py_dict (dtypes df)) kvs of
        Inl e \<Rightarrow> Inl e
      | Inr u \<Rightarrow> check_strict df (ColsDict kvs) strict)"
  by (simp add: check_columns_def check_names_def check_dtypes_def)

lemma check_columns_tuple:
  "check_columns df (ColsTuple xs) strict = check_strict df (ColsTuple xs) strict"
  by (simp add: check_columns_def check_names_def check_dtypes_def)

lemma check_columns_set:
  "check_columns df (ColsSet xs) strict = check_strict df (ColsSet xs) strict"
  by (simp add: check_columns_def check_names_def check_dtypes_def)

lemma py_dict_basic_df:
  "py_dict (dtypes basic_df) ''Brand'' = Some ''string''"
  "py_dict (dtypes basic_df) ''Price'' = Some ''int''"
  by (simp_all add: py_dict_def basic_df_def)

lemma columns_basic_df: "columns basic_df = [''Brand'', ''Price'']"
  by (simp add: basic_df_def)

section \<open>Short-circuit checking\<close>

text \<open>
  C9. One pass of \<^verbatim>\<open>_check_columns\<close> stops at the first failing item. When the items
  before \<open>c\<close> pass and \<open>c\<close> fails (an absent name in a list; an absent name or a differing
  dtype in a mapping), the outcome is the failure of \<open>c\<close> alone: it is the same for every
  list of later items and for either value of \<open>strict\<close>, so later items are not examined,
  and the outcome carries one violation.
\<close>

theorem check_columns_short_circuit:
  "((\<forall>x \<in> set pre. x \<in> set (columns df)) \<longrightarrow> c \<notin> set (columns df) \<longrightarrow>
      check_columns df (ColsList (pre @ c # post)) strict
        = Inl (AssertionError (missing_msg c df)))
   \<and> ((\<forall>(k, t) \<in> set kpre. k \<in> set (columns df) \<and> py_dict (dtypes df) k = Some t) \<longrightarrow>
        c \<notin> set (columns df) \<longrightarrow>
      check_columns df (ColsDict (kpre @ (c, t) # kpost)) strict
        = Inl (AssertionError (missing_msg c df)))
   \<and> ((\<forall>(k, t) \<in> set kpre. k \<in> set (columns df) \<and> py_dict (dtypes df) k = Some t) \<longrightarrow>
        c \<in> set (columns df) \<longrightarrow> py_dict (dtypes df) c = Some a \<longrightarrow> a \<noteq> t \<longrightarrow>
      check_columns df (ColsDict (kpre @ (c, t) # kpost)) strict
        = Inl (AssertionError (dtype_msg c a t)))"
proof (intro conjI impI)
  assume "\<forall>x \<in> set pre. x \<in> set (columns df)" and "c \<notin> set (columns df)"
  then show "check_columns df (ColsList (pre @ c # post)) strict
        = Inl (AssertionError (missing_msg c df))"
    by (simp add: check_columns_list check_list_first_fail subsetI)
next
  assume "\<forall>(k, t) \<in> set kpre. k \<in> set (columns df) \<and> py_dict (dtypes df) k = Some t"
    and "c \<notin> set (columns df)"
  then show "check_columns df (ColsDict (kpre @ (c, t) # kpost)) strict
        = Inl (AssertionError (missing_msg c df))"
    by (simp add: check_columns_dict check_dict_first_missing check_dict_ok_iff)
next
  assume "\<forall>(k, t) \<in> set kpre. k \<in> set (columns df) \<and> py_dict (dtypes df) k = Some t"
    and "c \<in> set (columns df)" and "py_dict (dtypes df) c = Some a" and "a \<noteq> t"
  then show "check_columns df (ColsDict (kpre @ (c, t) # kpost)) strict
        = Inl (AssertionError (dtype_msg c a t))"
    by (simp add: check_columns_dict check_dict_first_mismatch check_dict_ok_iff)
qed

theorem check_columns_short_circuit_witness:
  "check_columns basic_df (ColsList [''Brand'', ''FooColumn'', ''BarColumn'']) True
     = Inl (AssertionError (missing_msg ''FooColumn'' basic_df))
   \<and> check_columns basic_df
        (ColsDict [(''Brand'', ''string''), (''FooColumn'', ''int''), (''Price'', ''float'')]) True
     = Inl (AssertionError (missing_msg ''FooColumn'' basic_df))
   \<and> check_columns basic_df
        (ColsDict [(''Brand'', ''string''), (''Price'', ''float''), (''FooColumn'', ''int'')]) True
     = Inl (AssertionError (dtype_msg ''Price'' ''int'' ''float''))"
proof -
  have pre: "\<forall>x \<in> set [''Brand'']. x \<in> set (columns basic_df)"
    by (simp add: columns_basic_df)
  have kpre: "\<forall>(k, t) \<in> set [(''Brand'', ''string'')].
      k \<in> set (columns basic_df) \<and> py_dict (dtypes basic_df) k = Some t"
    by (simp add: columns_basic_df py_dict_basic_df)
  have foo: "''FooColumn'' \<notin> set (columns basic_df)"
    by (simp add: columns_basic_df)
  have price: "''Price'' \<in> set (columns basic_df)" "''int'' \<noteq> ''float''"
    by (simp_all add: columns_basic_df)
  from pre foo kpre
    check_columns_short_circuit [where pre = "[''Brand'']" and df = basic_df
      and c = "''FooColumn''" and post = "[''BarColumn'']" and strict = True
      and kpre = "[(''Brand'', ''string'')]" and t = "''int''"
      and kpost = "[(''Price'', ''float'')]"]
  have first: "check_columns basic_df (ColsList [''Brand'', ''FooColumn'', ''BarColumn'']) True
     = Inl (AssertionError (missing_msg ''FooColumn'' basic_df))"
    and second: "check_columns basic_df
        (ColsDict [(''Brand'', ''string''), (''FooColumn'', ''int''), (''Price'', ''float'')]) True
     = Inl (AssertionError (missing_msg ''FooColumn'' basic_df))"
    by simp_all
  from kpre price py_dict_basic_df(2)
    check_columns_short_circuit [where df = basic_df and c = "''Price''" and strict = True
      and kpre = "[(''Brand'', ''string'')]" and t = "''float''" and a = "''int''"
      and kpost = "[(''FooColumn'', ''int'')]"]
  have third: "check_columns basic_df
        (ColsDict [(''Brand'', ''string''), (''Price'', ''float''), (''FooColumn'', ''int'')]) True
     = Inl (AssertionError (dtype_msg ''Price'' ''int'' ''float''))"
    by simp
  from first second third show ?thesis by simp
qed

section \<open>The strict check\<close>

lemma check_list_length:
  assumes "check_list df xs = Inr ()" and "distinct xs"
  shows "length xs \<le> length (columns df)"
proof -
  from assms(1) have "set xs \<subseteq> set (columns df)"
    by (simp add: check_list_ok_iff)
  then have "card (set xs) \<le> card (set (columns df))"
    by (simp add: card_mono)
  also have "\<dots> \<le> length (columns df)"
    by (rule card_length)
  finally show ?thesis
    using assms(2) by (simp add: distinct_card)
qed

lemma psubset_length:
  assumes "distinct xs" and "set xs \<subset> set ys"
  shows "length xs < length ys"
proof -
  from assms(2) have "card (set xs) < card (set ys)"
    by (simp add: psubset_card_mono)
  also have "\<dots> \<le> length ys"
    by (rule card_length)
  finally show ?thesis
    using assms(1) by (simp add: distinct_card)
qed

text \<open>
  C2, as the code has it. The strict check compares the two counts for equality (lines
  24-25). For every dataframe and every specification whose presence and dtype checks
  pass, the strict check fails with \<open>UnexpectedColumns\<close> exactly when the number of actual
  columns differs from the number of specified ones, and it then carries the set of
  actual names that are not specified. For a list of distinct names that is exactly when
  the actual count exceeds the specified one. For a list of distinct names that is a
  proper subset of the actual names, the strict check fails and carries exactly the
  surplus names.
\<close>

theorem check_columns_strict_count:
  "(check_columns df cols False = Inr () \<longrightarrow>
      check_columns df cols True
        = (if length (columns df) = py_len cols then Inr ()
           else Inl (UnexpectedColumns (set (columns df) - py_set cols))))
   \<and> (check_columns df (ColsList xs) False = Inr () \<longrightarrow> distinct xs \<longrightarrow>
        (check_columns df (ColsList xs) True \<noteq> Inr ()
           \<longleftrightarrow> length xs < length (columns df)))
   \<and> (distinct xs \<longrightarrow> set xs \<subset> set (columns df) \<longrightarrow>
        check_columns df (ColsList xs) True
          = Inl (UnexpectedColumns (set (columns df) - set xs)))"
proof (intro conjI impI)
  assume ok: "check_columns df cols False = Inr ()"
  then show "check_columns df cols True
        = (if length (columns df) = py_len cols then Inr ()
           else Inl (UnexpectedColumns (set (columns df) - py_set cols)))"
    by (simp add: check_columns_def check_strict_def split: sum.splits)
next
  assume ok: "check_columns df (ColsList xs) False = Inr ()" and d: "distinct xs"
  from ok have l: "check_list df xs = Inr ()"
    by (simp add: check_columns_list split: sum.splits)
  from l d have "length xs \<le> length (columns df)"
    by (rule check_list_length)
  with l show "check_columns df (ColsList xs) True \<noteq> Inr ()
           \<longleftrightarrow> length xs < length (columns df)"
    by (auto simp add: check_columns_list check_strict_def)
next
  assume d: "distinct xs" and s: "set xs \<subset> set (columns df)"
  then have "length xs < length (columns df)"
    by (rule psubset_length)
  moreover from s have "check_list df xs = Inr ()"
    by (simp add: check_list_ok_iff psubset_imp_subset)
  ultimately show "check_columns df (ColsList xs) True
          = Inl (UnexpectedColumns (set (columns df) - set xs))"
    by (simp add: check_columns_list check_strict_def)
qed

text \<open>
  The claim as first stated ("exactly when the actual count exceeds the specified one")
  fails for a list that repeats a name: every listed name is present, the dataframe has
  fewer columns than the list has entries, and the strict check fails, with no surplus
  name to report.
\<close>

theorem check_columns_strict_count_counterexample:
  "check_columns \<lparr>columns = [''Brand''], dtypes = [(''Brand'', ''string'')]\<rparr>
      (ColsList [''Brand'', ''Brand'']) False = Inr ()
   \<and> check_columns \<lparr>columns = [''Brand''], dtypes = [(''Brand'', ''string'')]\<rparr>
      (ColsList [''Brand'', ''Brand'']) True = Inl (UnexpectedColumns {})
   \<and> \<not> length (columns \<lparr>columns = [''Brand''], dtypes = [(''Brand'', ''string'')]\<rparr>)
         > py_len (ColsList [''Brand'', ''Brand''])"
  by (simp add: check_columns_list check_strict_def)

theorem check_columns_strict_count_witness:
  "check_columns basic_df (ColsList [''Brand'']) False = Inr ()
   \<and> check_columns basic_df (ColsList [''Brand'']) True = Inl (UnexpectedColumns {''Price''})
   \<and> distinct [''Brand''] \<and> set [''Brand''] \<subset> set (columns basic_df)
   \<and> length [''Brand''] < length (columns basic_df)"
proof -
  have ok: "check_columns basic_df (ColsList [''Brand'']) False = Inr ()"
    by (simp add: check_columns_list check_strict_def columns_basic_df)
  have d: "distinct [''Brand'']" by simp
  have s: "set [''Brand''] \<subset> set (columns basic_df)"
    by (auto simp add: columns_basic_df)
  have diff: "set (columns basic_df) - set [''Brand''] = {''Price''}"
    by (auto simp add: columns_basic_df)
  from ok d s diff
    check_columns_strict_count [where df = basic_df and cols = "ColsList [''Brand'']"
      and xs = "[''Brand'']"]
  show ?thesis by (simp add: columns_basic_df)
qed

section \<open>The dtype mapping\<close>

text \<open>
  C3. For a name-to-dtype mapping, \<^verbatim>\<open>_check_columns\<close> succeeds (without \<open>strict\<close>) exactly
  when every listed column is present and the dtype string the dataframe gives for it is
  equal to the expected string, character by character; with \<open>strict\<close> it succeeds only
  then. When the entries before a present column pass and its dtype differs, the failure
  is the \<open>AssertionError\<close> with the text
  \<^verbatim>\<open>Column <name> has wrong dtype. Was <actual>, expected <expected>\<close>. On the fixture
  \<^verbatim>\<open>basic_df\<close>, the mapping \<^verbatim>\<open>{"Brand": "string", "Price": "int"}\<close> passes and
  \<^verbatim>\<open>{"Price": "float"}\<close> fails with
  \<^verbatim>\<open>Column Price has wrong dtype. Was int, expected float\<close>.
\<close>

theorem check_columns_dtype_mapping:
  "(check_columns df (ColsDict kvs) False = Inr ()
      \<longleftrightarrow> (\<forall>(c, t) \<in> set kvs. c \<in> set (columns df) \<and> py_dict (dtypes df) c = Some t))
   \<and> (check_columns df (ColsDict kvs) strict = Inr ()
      \<longrightarrow> (\<forall>(c, t) \<in> set kvs. c \<in> set (columns df) \<and> py_dict (dtypes df) c = Some t))
   \<and> ((\<forall>(c, t) \<in> set pre. c \<in> set (columns df) \<and> py_dict (dtypes df) c = Some t)
        \<longrightarrow> name \<in> set (columns df) \<longrightarrow> py_dict (dtypes df) name = Some actual
        \<longrightarrow> actual \<noteq> expected
        \<longrightarrow> check_columns df (ColsDict (pre @ (name, expected) # post)) strict
            = Inl (AssertionError
                (''Column '' @ name @ '' has wrong dtype. Was '' @ actual
                   @ '', expected '' @ expected)))
   \<and> check_columns basic_df (ColsDict [(''Brand'', ''string''), (''Price'', ''int'')]) False
       = Inr ()
   \<and> check_columns basic_df (ColsDict [(''Price'', ''float'')]) False
       = Inl (AssertionError ''Column Price has wrong dtype. Was int, expected float'')"
proof (intro conjI impI)
  show "check_columns df (ColsDict kvs) False = Inr ()
      \<longleftrightarrow> (\<forall>(c, t) \<in> set kvs. c \<in> set (columns df) \<and> py_dict (dtypes df) c = Some t)"
    by (simp add: check_columns_dict check_strict_def check_dict_ok_iff [symmetric]
        split: sum.splits)
next
  assume "check_columns df (ColsDict kvs) strict = Inr ()"
  then have "check_dict df (py_dict (dtypes df)) kvs = Inr ()"
    by (simp add: check_columns_dict split: sum.splits)
  then show "\<forall>(c, t) \<in> set kvs. c \<in> set (columns df) \<and> py_dict (dtypes df) c = Some t"
    by (simp add: check_dict_ok_iff)
next
  assume "\<forall>(c, t) \<in> set pre. c \<in> set (columns df) \<and> py_dict (dtypes df) c = Some t"
    and "name \<in> set (columns df)" and "py_dict (dtypes df) name = Some actual"
    and "actual \<noteq> expected"
  then show "check_columns df (ColsDict (pre @ (name, expected) # post)) strict
            = Inl (AssertionError
                (''Column '' @ name @ '' has wrong dtype. Was '' @ actual
                   @ '', expected '' @ expected))"
    by (simp add: check_columns_dict check_dict_first_mismatch check_dict_ok_iff dtype_msg_def)
next
  show "check_columns basic_df (ColsDict [(''Brand'', ''string''), (''Price'', ''int'')]) False
       = Inr ()"
    by (simp add: check_columns_dict check_strict_def columns_basic_df py_dict_basic_df)
next
  show "check_columns basic_df (ColsDict [(''Price'', ''float'')]) False
       = Inl (AssertionError ''Column Price has wrong dtype. Was int, expected float'')"
    by (simp add: check_columns_dict columns_basic_df py_dict_basic_df dtype_msg_def)
qed

theorem check_columns_dtype_mapping_witness:
  "check_columns basic_df (ColsDict [(''Brand'', ''string''), (''Price'', ''float'')]) False
     = Inl (AssertionError ''Column Price has wrong dtype. Was int, expected float'')
   \<and> check_columns basic_df (ColsDict [(''Brand'', ''string''), (''Price'', ''float'')]) False
       \<noteq> Inr ()
   \<and> \<not> (''Price'' \<in> set (columns basic_df) \<and> py_dict (dtypes basic_df) ''Price'' = Some ''float'')
   \<and> check_columns basic_df (ColsDict [(''Brand'', ''string''), (''Price'', ''Int'')]) True
     = Inl (AssertionError ''Column Price has wrong dtype. Was int, expected Int'')"
proof -
  have pre: "\<forall>(c, t) \<in> set [(''Brand'', ''string'')].
      c \<in> set (columns basic_df) \<and> py_dict (dtypes basic_df) c = Some t"
    by (simp add: columns_basic_df py_dict_basic_df)
  have price: "''Price'' \<in> set (columns basic_df)"
    by (simp add: columns_basic_df)
  have neq: "''int'' \<noteq> ''float''" "''int'' \<noteq> ''Int''"
    by simp_all
  note thm1 = check_columns_dtype_mapping [where df = basic_df
      and kvs = "[(''Brand'', ''string''), (''Price'', ''float'')]" and strict = False
      and pre = "[(''Brand'', ''string'')]" and name = "''Price''" and actual = "''int''"
      and expected = "''float''" and post = "[]"]
  note thm2 = check_columns_dtype_mapping [where df = basic_df
      and kvs = "[(''Brand'', ''string''), (''Price'', ''Int'')]" and strict = True
      and pre = "[(''Brand'', ''string'')]" and name = "''Price''" and actual = "''int''"
      and expected = "''Int''" and post = "[]"]
  from thm1 pre price neq(1) py_dict_basic_df(2)
  have a: "check_columns basic_df (ColsDict [(''Brand'', ''string''), (''Price'', ''float'')]) False
     = Inl (AssertionError ''Column Price has wrong dtype. Was int, expected float'')"
    by simp
  from thm2 pre price neq(2) py_dict_basic_df(2)
  have b: "check_columns basic_df (ColsDict [(''Brand'', ''string''), (''Price'', ''Int'')]) True
     = Inl (AssertionError ''Column Price has wrong dtype. Was int, expected Int'')"
    by simp
  from a b show ?thesis
    by (simp add: py_dict_basic_df)
qed

section \<open>The wrappers and the checker\<close>

lemma check_if_columns_truthy:
  "truthy (Some cols) \<Longrightarrow> check_if_columns df (Some cols) strict = check_columns df cols strict"
  by (simp add: check_if_columns_def)

lemma check_if_columns_falsy:
  "\<not> truthy columns_opt \<Longrightarrow> check_if_columns df columns_opt strict = Inr ()"
  by (cases columns_opt) (simp_all add: check_if_columns_def)

lemma df_in_dataframe:
  "call_get_parameter name args kwargs = Inr (PDataFrame df) \<Longrightarrow>
   df_in name columns_opt strict func args kwargs w =
     (case check_if_columns df columns_opt strict of
        Inl e \<Rightarrow> (Inl e, w)
      | Inr u \<Rightarrow> func args kwargs w)"
  by (simp add: df_in_def)

lemma df_out_dataframe:
  "func args kwargs w = (Inr (PDataFrame df), w') \<Longrightarrow>
   df_out columns_opt strict func args kwargs w =
     (case check_if_columns df columns_opt strict of
        Inl e \<Rightarrow> (Inl e, w')
      | Inr u \<Rightarrow> (Inr (PDataFrame df), w'))"
  by (simp add: df_out_def)

lemma call_get_parameter_first:
  "kwargs ''name'' = None \<Longrightarrow> call_get_parameter None (a # rest) kwargs = Inr a"
  by (simp add: call_get_parameter_def get_parameter_def)

section \<open>Specifications that are neither a list nor a dict\<close>

text \<open>
  C10. For a tuple or a set of names, neither \<^verbatim>\<open>isinstance\<close> test of
  \<^verbatim>\<open>_check_columns\<close> holds: no presence and no dtype check is made, so without \<open>strict\<close>
  the check succeeds on every dataframe. With \<open>strict\<close> the counts are still compared,
  and the check fails with \<open>UnexpectedColumns\<close> whenever they differ. The wrappers call
  \<^verbatim>\<open>_check_columns\<close> for every truthy specification: on a dataframe argument (or
  result) the wrapper's outcome is decided by that check.
\<close>

theorem other_containers_only_counted:
  "(cols = ColsTuple xs \<or> cols = ColsSet xs \<longrightarrow>
      check_names df cols = Inr () \<and> check_dtypes df cols = Inr ()
      \<and> check_columns df cols False = Inr ()
      \<and> check_columns df cols True
          = (if length (columns df) = py_len cols then Inr ()
             else Inl (UnexpectedColumns (set (columns df) - set xs))))
   \<and> (truthy (Some spec) \<longrightarrow> call_get_parameter name args kwargs = Inr (PDataFrame df) \<longrightarrow>
        df_in name (Some spec) strict func args kwargs w
          = (case check_columns df spec strict of
               Inl e \<Rightarrow> (Inl e, w)
             | Inr u \<Rightarrow> func args kwargs w))
   \<and> (truthy (Some spec) \<longrightarrow> func args kwargs w = (Inr (PDataFrame df), w') \<longrightarrow>
        df_out (Some spec) strict func args kwargs w
          = (case check_columns df spec strict of
               Inl e \<Rightarrow> (Inl e, w')
             | Inr u \<Rightarrow> (Inr (PDataFrame df), w')))"
proof (intro conjI impI)
  assume c: "cols = ColsTuple xs \<or> cols = ColsSet xs"
  then show "check_names df cols = Inr ()"
    by (auto simp add: check_names_def)
  from c show "check_dtypes df cols = Inr ()"
    by (auto simp add: check_dtypes_def)
  from c show "check_columns df cols False = Inr ()"
    by (auto simp add: check_columns_tuple check_columns_set check_strict_def)
  from c show "check_columns df cols True
          = (if length (columns df) = py_len cols then Inr ()
             else Inl (UnexpectedColumns (set (columns df) - set xs)))"
    by (auto simp add: check_columns_tuple check_columns_set check_strict_def)
next
  assume "truthy (Some spec)" and "call_get_parameter name args kwargs = Inr (PDataFrame df)"
  then show "df_in name (Some spec) strict func args kwargs w
          = (case check_columns df spec strict of
               Inl e \<Rightarrow> (Inl e, w)
             | Inr u \<Rightarrow> func args kwargs w)"
    by (simp add: df_in_dataframe check_if_columns_truthy)
next
  assume "truthy (Some spec)" and "func args kwargs w = (Inr (PDataFrame df), w')"
  then show "df_out (Some spec) strict func args kwargs w
          = (case check_columns df spec strict of
               Inl e \<Rightarrow> (Inl e, w')
             | Inr u \<Rightarrow> (Inr (PDataFrame df), w'))"
    by (simp add: df_out_dataframe check_if_columns_truthy)
qed

theorem other_containers_only_counted_witness:
  "check_columns basic_df (ColsTuple [''Foo'', ''Bar'']) False = Inr ()
   \<and> check_columns basic_df (ColsTuple [''Foo'', ''Bar'']) True = Inr ()
   \<and> check_columns basic_df (ColsSet [''Brand'']) True = Inl (UnexpectedColumns {''Price''})
   \<and> df_in None (Some (ColsSet [''Brand''])) True (returning PNone) [PDataFrame basic_df]
        Map.empty w0 = (Inl (UnexpectedColumns {''Price''}), w0)
   \<and> df_out (Some (ColsTuple [''Foo'', ''Bar''])) True (returning (PDataFrame basic_df)) []
        Map.empty w0 = (Inr (PDataFrame basic_df), w0\<lparr>other := 1\<rparr>)"
proof -
  note t1 = other_containers_only_counted [where cols = "ColsTuple [''Foo'', ''Bar'']"
      and xs = "[''Foo'', ''Bar'']" and df = basic_df and spec = "ColsTuple [''Foo'', ''Bar'']"
      and func = "returning (PDataFrame basic_df)" and args = "[]" and kwargs = Map.empty
      and w = w0 and w' = "w0\<lparr>other := 1\<rparr>" and strict = True]
  note t2 = other_containers_only_counted [where cols = "ColsSet [''Brand'']"
      and xs = "[''Brand'']" and df = basic_df and spec = "ColsSet [''Brand'']"
      and func = "returning PNone" and args = "[PDataFrame basic_df]" and kwargs = Map.empty
      and w = w0 and name = None and strict = True]
  have diff: "set (columns basic_df) - set [''Brand''] = {''Price''}"
    by (auto simp add: columns_basic_df)
  have r: "returning (PDataFrame basic_df) [] Map.empty w0
      = (Inr (PDataFrame basic_df), w0\<lparr>other := 1\<rparr>)"
    by (simp add: returning_def w0_def)
  have g: "call_get_parameter None [PDataFrame basic_df] Map.empty = Inr (PDataFrame basic_df)"
    by (simp add: call_get_parameter_first)
  from t1 r have a: "check_columns basic_df (ColsTuple [''Foo'', ''Bar'']) False = Inr ()"
    and b: "check_columns basic_df (ColsTuple [''Foo'', ''Bar'']) True = Inr ()"
    and e: "df_out (Some (ColsTuple [''Foo'', ''Bar''])) True (returning (PDataFrame basic_df)) []
        Map.empty w0 = (Inr (PDataFrame basic_df), w0\<lparr>other := 1\<rparr>)"
    by (simp_all add: columns_basic_df)
  from t2 g diff have c: "check_columns basic_df (ColsSet [''Brand'']) True
      = Inl (UnexpectedColumns {''Price''})"
    and d: "df_in None (Some (ColsSet [''Brand''])) True (returning PNone) [PDataFrame basic_df]
        Map.empty w0 = (Inl (UnexpectedColumns {''Price''}), w0)"
    by (simp_all add: columns_basic_df)
  from a b c d e show ?thesis by simp
qed

section \<open>Passing the call through\<close>

text \<open>
  C8. When all checks pass, the call of a \<^verbatim>\<open>df_in\<close> wrapper is the call of the wrapped
  function on the same positional and keyword arguments in the same world: the same
  outcome and the same effects, those of one call. With \<^verbatim>\<open>df_out\<close>, the wrapped function
  is called on the same arguments, and when its result is a dataframe that passes the
  checks, the wrapper returns that result and leaves the world as that one call left it.
\<close>

theorem wrappers_pass_through:
  "(call_get_parameter name args kwargs = Inr (PDataFrame df) \<longrightarrow>
      check_if_columns df columns_opt strict = Inr () \<longrightarrow>
      df_in name columns_opt strict func args kwargs w = func args kwargs w)
   \<and> (func args kwargs w = (Inr (PDataFrame df), w') \<longrightarrow>
      check_if_columns df columns_opt strict = Inr () \<longrightarrow>
      df_out columns_opt strict func args kwargs w = (Inr (PDataFrame df), w'))"
  by (simp add: df_in_dataframe df_out_dataframe)

theorem wrappers_pass_through_witness:
  "df_in None (Some (ColsList [''Brand'', ''Price''])) True (returning (PInt 1))
      [PDataFrame basic_df] Map.empty w0 = (Inr (PInt 1), w0\<lparr>other := 1\<rparr>)
   \<and> df_out (Some (ColsList [''Brand''])) False (returning (PDataFrame basic_df))
      [PInt 5] Map.empty w0 = (Inr (PDataFrame basic_df), w0\<lparr>other := 1\<rparr>)"
proof -
  have g: "call_get_parameter None [PDataFrame basic_df] Map.empty = Inr (PDataFrame basic_df)"
    by (simp add: call_get_parameter_first)
  have c1: "check_if_columns basic_df (Some (ColsList [''Brand'', ''Price''])) True = Inr ()"
    by (simp add: check_if_columns_def check_columns_list check_strict_def columns_basic_df)
  have c2: "check_if_columns basic_df (Some (ColsList [''Brand''])) False = Inr ()"
    by (simp add: check_if_columns_def check_columns_list check_strict_def columns_basic_df)
  have r1: "returning (PInt 1) [PDataFrame basic_df] Map.empty w0
      = (Inr (PInt 1), w0\<lparr>other := 1\<rparr>)"
    by (simp add: returning_def w0_def)
  have r2: "returning (PDataFrame basic_df) [PInt 5] Map.empty w0
      = (Inr (PDataFrame basic_df), w0\<lparr>other := 1\<rparr>)"
    by (simp add: returning_def w0_def)
  from g c1 r1
    wrappers_pass_through [where name = None and args = "[PDataFrame basic_df]"
      and kwargs = Map.empty and df = basic_df
      and columns_opt = "Some (ColsList [''Brand'', ''Price''])" and strict = True
      and func = "returning (PInt 1)" and w = w0]
  have a: "df_in None (Some (ColsList [''Brand'', ''Price''])) True (returning (PInt 1))
      [PDataFrame basic_df] Map.empty w0 = (Inr (PInt 1), w0\<lparr>other := 1\<rparr>)"
    by simp
  from c2 r2
    wrappers_pass_through [where args = "[PInt 5]"
      and kwargs = Map.empty and df = basic_df
      and columns_opt = "Some (ColsList [''Brand''])" and strict = False
      and func = "returning (PDataFrame basic_df)" and w = w0 and w' = "w0\<lparr>other := 1\<rparr>"]
  have b: "df_out (Some (ColsList [''Brand''])) False (returning (PDataFrame basic_df))
      [PInt 5] Map.empty w0 = (Inr (PDataFrame basic_df), w0\<lparr>other := 1\<rparr>)"
    by simp
  from a b show ?thesis by simp
qed

section \<open>The type check of the input wrapper\<close>

lemma df_in_not_dataframe:
  assumes "call_get_parameter name args kwargs = Inr v" and "\<forall>df. v \<noteq> PDataFrame df"
  shows "df_in name columns_opt strict func args kwargs w
           = (Inl (AssertionError (wrong_parameter_msg v)), w)"
  using assms by (cases v) (simp_all add: df_in_def)

lemma call_get_parameter_no_args:
  "kwargs ''name'' = None \<Longrightarrow> call_get_parameter None [] kwargs = Inr PNone"
  by (simp add: call_get_parameter_def get_parameter_def)

text \<open>
  C4, as the code has it. Whenever parameter resolution returns a value, the
  \<^verbatim>\<open>isinstance\<close> check of \<^verbatim>\<open>df_in\<close> runs, whatever the column specification is (also
  when there is none): a value that is not a dataframe fails with
  \<^verbatim>\<open>Wrong parameter type. Expected Spark DataFrame, got <type name> instead.\<close> and the
  wrapped function is not called. In particular, a call with no positional argument and
  no keyword argument called \<^verbatim>\<open>name\<close>, on a wrapper with no configured parameter name,
  fails with \<^verbatim>\<open>Wrong parameter type. Expected Spark DataFrame, got NoneType instead.\<close>
\<close>

theorem df_in_type_check:
  "(call_get_parameter name args kwargs = Inr v \<longrightarrow> (\<forall>df. v \<noteq> PDataFrame df) \<longrightarrow>
      df_in name columns_opt strict func args kwargs w
        = (Inl (AssertionError
             (''Wrong parameter type. Expected Spark DataFrame, got '' @ type_name v
                @ '' instead.'')), w))
   \<and> (kwargs ''name'' = None \<longrightarrow>
      df_in None columns_opt strict func [] kwargs w
        = (Inl (AssertionError
             ''Wrong parameter type. Expected Spark DataFrame, got NoneType instead.''), w))"
proof (intro conjI impI)
  assume "call_get_parameter name args kwargs = Inr v" and "\<forall>df. v \<noteq> PDataFrame df"
  then show "df_in name columns_opt strict func args kwargs w
        = (Inl (AssertionError
             (''Wrong parameter type. Expected Spark DataFrame, got '' @ type_name v
                @ '' instead.'')), w)"
    by (simp add: df_in_not_dataframe wrong_parameter_msg_def)
next
  assume "kwargs ''name'' = None"
  then have "call_get_parameter None [] kwargs = Inr PNone"
    by (rule call_get_parameter_no_args)
  then show "df_in None columns_opt strict func [] kwargs w
        = (Inl (AssertionError
             ''Wrong parameter type. Expected Spark DataFrame, got NoneType instead.''), w)"
    by (simp add: df_in_not_dataframe wrong_parameter_msg_def)
qed

theorem df_in_type_check_witness:
  "df_in (Some ''my_input'') (Some (ColsList [''Brand''])) True (returning PNone) []
      [''my_input'' \<mapsto> PStr ''foobar''] w0
     = (Inl (AssertionError
          ''Wrong parameter type. Expected Spark DataFrame, got str instead.''), w0)
   \<and> df_in None None False (returning PNone) [] Map.empty w0
     = (Inl (AssertionError
          ''Wrong parameter type. Expected Spark DataFrame, got NoneType instead.''), w0)"
proof -
  have g: "call_get_parameter (Some ''my_input'') [] [''my_input'' \<mapsto> PStr ''foobar'']
      = Inr (PStr ''foobar'')"
    by (simp add: call_get_parameter_def get_parameter_def)
  have n: "\<forall>df. PStr ''foobar'' \<noteq> PDataFrame df"
    by simp
  have k: "(Map.empty :: kwargs) ''name'' = None"
    by simp
  from g n
    df_in_type_check [where name = "Some ''my_input''" and args = "[]"
      and kwargs = "[''my_input'' \<mapsto> PStr ''foobar'']" and v = "PStr ''foobar''"
      and columns_opt = "Some (ColsList [''Brand''])" and strict = True
      and func = "returning PNone" and w = w0]
  have a: "df_in (Some ''my_input'') (Some (ColsList [''Brand''])) True (returning PNone) []
      [''my_input'' \<mapsto> PStr ''foobar''] w0
     = (Inl (AssertionError
          ''Wrong parameter type. Expected Spark DataFrame, got str instead.''), w0)"
    by simp
  from k
    df_in_type_check [where kwargs = Map.empty and columns_opt = None and strict = False
      and func = "returning PNone" and w = w0]
  have b: "df_in None None False (returning PNone) [] Map.empty w0
     = (Inl (AssertionError
          ''Wrong parameter type. Expected Spark DataFrame, got NoneType instead.''), w0)"
    by simp
  from a b show ?thesis by simp
qed

text \<open>
  The claim as first stated ("the type check runs on every call", and every call with no
  positional argument and no configured name fails with the \<^verbatim>\<open>NoneType\<close> message) fails
  where resolution itself raises: with a configured name and the value passed
  positionally, the \<open>KeyError\<close> of \<^verbatim>\<open>kwargs[name]\<close> comes first; and a keyword argument
  called \<^verbatim>\<open>name\<close> stops the call of \<^verbatim>\<open>_get_parameter\<close> with a \<open>TypeError\<close>.
\<close>

theorem df_in_type_check_counterexample:
  "df_in (Some ''df'') None False (returning PNone) [PStr ''foobar''] Map.empty w0
     = (Inl (KeyError ''df''), w0)
   \<and> df_in None None False (returning PNone) [] [''name'' \<mapsto> PStr ''foobar''] w0
     = (Inl (TypeError multiple_values_msg), w0)"
  by (simp add: df_in_def call_get_parameter_def get_parameter_def)

section \<open>The shape logger\<close>






lemma describe_basic_df:
  "describe_df basic_df False
     = ''columns: ['' @ [squote] @ ''Brand'' @ [squote] @ '', '' @ [squote] @ ''Price''
         @ [squote] @ '']''"
  by (simp add: describe_df_def py_str_list_def py_repr_str_def repr_char_def
      columns_basic_df squote_def dquote_def backslash_def Let_def)

lemma df_log_result:
  "fst (df_log name include_dtypes func_name func args kwargs w) = Inr r \<Longrightarrow> r = PNone"
  by (auto simp add: df_log_def split: sum.splits prod.splits)






text \<open>
  C1. The claim is that a \<^verbatim>\<open>df_log\<close> wrapper returns the result of the wrapped function.
  The code does not: the wrapper of lines 127-130 has no \<^verbatim>\<open>return\<close>. On the call of
  \<^verbatim>\<open>test_log_df\<close>, the wrapped function returns \<^verbatim>\<open>basic_df\<close> and the wrapper returns
  \<^verbatim>\<open>None\<close>.
\<close>

theorem df_log_returns_None:
  "fst (returning (PDataFrame basic_df) [PDataFrame basic_df] Map.empty w)
     = Inr (PDataFrame basic_df)
   \<and> fst (df_log None False ''test_fn'' (returning (PDataFrame basic_df))
        [PDataFrame basic_df] Map.empty w0) = Inr PNone"
  by (simp add: df_log_def call_get_parameter_first returning_def)

text \<open>
  C6. The claim is that the wrapper writes two diagnostic lines and nothing else. The code
  writes more: on the call of \<^verbatim>\<open>test_log_df\<close> there are three calls of \<^verbatim>\<open>print\<close>, the
  first one being \<^verbatim>\<open>print("log_input\n", df)\<close> of line 103, followed by the two diagnostic
  lines.
\<close>

theorem df_log_prints_three_times:
  "stdout (snd (df_log None False ''test_fn'' (returning (PDataFrame basic_df))
        [PDataFrame basic_df] Map.empty w0))
     = [[PStr (''log_input'' @ [CHR 0x0A]), PDataFrame basic_df],
        [PStr (''Function test_fn parameters contained a DataFrame: columns: [''
                 @ [squote] @ ''Brand'' @ [squote] @ '', '' @ [squote] @ ''Price'' @ [squote]
                 @ '']'')],
        [PStr (''Function test_fn returned a DataFrame: columns: [''
                 @ [squote] @ ''Brand'' @ [squote] @ '', '' @ [squote] @ ''Price'' @ [squote]
                 @ '']'')]]"
  by (simp add: df_log_def call_get_parameter_first returning_def log_input_def log_output_def
      py_print_def w0_def log_input_msg_def log_output_msg_def describe_basic_df)

end
